theory Spec2Isabelle
  imports Complex_Main
begin

section \<open>JavaScript values read by App.js\<close>

text \<open>
  A JavaScript number is an IEEE double. Every finite double is a rational number, so a
  finite number is modelled by its exact value; the three non-finite numbers are separate
  constructors. (Negative zero is identified with zero: the program only formats numbers
  and tests them for truthiness, and both treat the two zeros alike.)
\<close>

datatype jsnum = Finite rat | NaN | PosInf | NegInf

text \<open>
  The values \<open>response.json()\<close> can resolve to, together with \<open>undefined\<close>, which
  reading a missing property yields. An object is the list of its own properties.
\<close>

datatype jsval =
    Undefined
  | Null
  | Bool bool
  | Num jsnum
  | Str string
  | Arr "jsval list"
  | Obj "(string \<times> jsval) list"

text \<open>
  What a \<open>throw\<close> or a rejected promise carries. The text of an engine-made TypeError
  differs between engines; no statement below depends on it.
\<close>

datatype js_error = Error string | TypeError string

fun message :: "js_error \<Rightarrow> string" where
  "message (Error m) = m"
| "message (TypeError m) = m"

definition bind_result :: "js_error + 'a \<Rightarrow> ('a \<Rightarrow> js_error + 'b) \<Rightarrow> js_error + 'b" where
  "bind_result r f = (case r of Inl e \<Rightarrow> Inl e | Inr x \<Rightarrow> f x)"

text \<open>
  Property read \<open>v.k\<close> and \<open>v[0]\<close> (the key \<open>''0''\<close>). Reading a property of
  \<open>undefined\<close> or \<open>null\<close> throws; a missing property is \<open>undefined\<close>. The function is
  exact for the keys the program reads (\<open>name\<close>, \<open>main\<close>, \<open>temp\<close>, \<open>pressure\<close>,
  \<open>humidity\<close>, \<open>weather\<close>, \<open>description\<close> and the index 0); the other properties of
  arrays and strings (\<open>length\<close>, further indices, prototype methods) are never read.
\<close>

fun getProp :: "jsval \<Rightarrow> string \<Rightarrow> js_error + jsval" where
  "getProp Undefined k = Inl (TypeError (''Cannot read property of undefined: '' @ k))"
| "getProp Null k = Inl (TypeError (''Cannot read property of null: '' @ k))"
| "getProp (Obj kvs) k = Inr (case map_of kvs k of None \<Rightarrow> Undefined | Some v \<Rightarrow> v)"
| "getProp (Arr xs) k = Inr (case xs of [] \<Rightarrow> Undefined | x # _ \<Rightarrow> if k = ''0'' then x else Undefined)"
| "getProp (Str s) k = Inr (case s of [] \<Rightarrow> Undefined | c # _ \<Rightarrow> if k = ''0'' then Str [c] else Undefined)"
| "getProp (Num n) k = Inr Undefined"
| "getProp (Bool b) k = Inr Undefined"

text \<open>A chain of property reads, \<open>v.k1.k2\<close>: the first read that throws ends it.\<close>

fun getPath :: "jsval \<Rightarrow> string list \<Rightarrow> js_error + jsval" where
  "getPath v [] = Inr v"
| "getPath v (k # ks) = (case getProp v k of Inl e \<Rightarrow> Inl e | Inr x \<Rightarrow> getPath x ks)"

text \<open>ToBoolean, as used by \<open>if (data)\<close> and by \<open>data.name || ...\<close>.\<close>

fun truthy :: "jsval \<Rightarrow> bool" where
  "truthy Undefined = False"
| "truthy Null = False"
| "truthy (Bool b) = b"
| "truthy (Num n) = (n \<noteq> Finite 0 \<and> n \<noteq> NaN)"
| "truthy (Str s) = (s \<noteq> [])"
| "truthy (Arr xs) = True"
| "truthy (Obj kvs) = True"

subsection \<open>Number.prototype.toFixed\<close>

definition digit_char :: "nat \<Rightarrow> char" where
  "digit_char d = ''0123456789'' ! (d mod 10)"

text \<open>The decimal representation of a natural number, without leading zeros.\<close>

fun dec :: "nat \<Rightarrow> string" where
  "dec n = (if n < 10 then [digit_char n] else dec (n div 10) @ [digit_char (n mod 10)])"

declare dec.simps [simp del]

text \<open>
  \<open>x.toFixed(f)\<close> for \<open>0 \<le> f \<le> 100\<close> (the program passes 4 and 2, so the RangeError
  for other \<open>f\<close> cannot arise). A non-finite number gives its name. A finite number of
  magnitude at least \<open>10^21\<close> is formatted by the engine's Number-to-String conversion,
  which depends on the binary representation and is taken as the parameter \<open>toStr\<close>.
  Otherwise \<open>n\<close> is the integer nearest to \<open>|x| * 10^f\<close> (the larger one on a tie), its
  digits are padded with zeros to at least \<open>f + 1\<close> characters, and the point is put
  before the last \<open>f\<close> of them.
\<close>

definition toFixed :: "(rat \<Rightarrow> string) \<Rightarrow> jsnum \<Rightarrow> nat \<Rightarrow> string" where
  "toFixed toStr x f =
     (case x of
        NaN \<Rightarrow> ''NaN''
      | PosInf \<Rightarrow> ''Infinity''
      | NegInf \<Rightarrow> ''-Infinity''
      | Finite r \<Rightarrow>
          (let s = (if r < 0 then ''-'' else '''');
               a = \<bar>r\<bar>
           in if a \<ge> 10 ^ 21 then s @ toStr a
              else
                (let n = nat \<lfloor>a * 10 ^ f + 1 / 2\<rfloor>;
                     m = dec n;
                     m' = (if f \<noteq> 0
                           then (let k = length m;
                                     mz = (if k \<le> f then replicate (f + 1 - k) CHR ''0'' @ m else m);
                                     kz = length mz
                                 in take (kz - f) mz @ ''.'' @ drop (kz - f) mz)
                           else m)
                 in s @ m')))"

text \<open>
  \<open>v.toFixed(f)\<close> on an arbitrary value: only a number has the method. On \<open>undefined\<close>
  and \<open>null\<close> the property read throws, on every other value read from JSON
  \<open>v.toFixed\<close> is not a function and the call throws.
\<close>

fun callToFixed :: "(rat \<Rightarrow> string) \<Rightarrow> jsval \<Rightarrow> nat \<Rightarrow> js_error + string" where
  "callToFixed toStr (Num n) f = Inr (toFixed toStr n f)"
| "callToFixed toStr Undefined f = Inl (TypeError ''Cannot read property of undefined: toFixed'')"
| "callToFixed toStr Null f = Inl (TypeError ''Cannot read property of null: toFixed'')"
| "callToFixed toStr v f = Inl (TypeError ''toFixed is not a function'')"

section \<open>The component state and its effects\<close>

text \<open>The object passed to \<open>setWeatherData\<close> (App.js, lines 58 to 66).\<close>

record weather_record =
  place :: jsval
  latitude :: string
  longitude :: string
  temp :: string
  pressure :: jsval
  humidity :: jsval
  description :: jsval

text \<open>
  What the component does to the outside world, in the order it does it:
  \<open>Alert.alert(title, text)\<close>, \<open>console.error(label, error)\<close>, the GET request of
  \<open>fetch(apiURL)\<close> (the URL template filled with \<open>lat\<close>, \<open>lon\<close> and the key, units
  metric), \<open>Location.watchPositionAsync\<close> returning the subscription with the given
  handle, and \<open>remove()\<close> on a subscription.
\<close>

datatype effect =
    Alert string string
  | ConsoleError string js_error
  | FetchWeather jsnum jsnum string
  | WatchPosition nat
  | Remove nat

text \<open>
  The five \<open>useState\<close> cells and the \<open>useRef\<close> cell of the component, the effects so
  far, the calls of \<open>watchPositionAsync\<close> that are awaited and have not settled yet,
  and the location service's side: the subscriptions that are delivering updates and
  the handle the next subscription gets.
\<close>

record app_state =
  st_latitude :: jsnum
  st_longitude :: jsnum
  weatherData :: "weather_record option"
  visible :: bool
  locationError :: "string option"
  locationSubscription :: "nat option"
  effects :: "effect list"
  active :: "nat list"
  next_handle :: nat
  pending_watch :: nat

text \<open>The double nearest to the literals \<open>57.538900\<close> and \<open>25.425727\<close>.\<close>

definition initial_latitude :: rat where
  "initial_latitude = 8097880268728382 / 2 ^ 47"

definition initial_longitude :: rat where
  "initial_longitude = 7156705915176497 / 2 ^ 48"

definition initial_state :: app_state where
  "initial_state =
     \<lparr>st_latitude = Finite initial_latitude, st_longitude = Finite initial_longitude,
      weatherData = None, visible = False, locationError = None,
      locationSubscription = None, effects = [], active = [], next_handle = 0,
      pending_watch = 0\<rparr>"

definition API_KEY :: string where
  "API_KEY = ''Your API key''"

definition showDialog :: "app_state \<Rightarrow> app_state" where
  "showDialog s = s\<lparr>visible := True\<rparr>"

definition hideDialog :: "app_state \<Rightarrow> app_state" where
  "hideDialog s = s\<lparr>visible := False\<rparr>"

section \<open>fetchWeatherData\<close>

text \<open>
  The HTTP response: its status, and what \<open>response.text()\<close> and \<open>response.json()\<close>
  resolve to or reject with. \<open>response.ok\<close> is true for the statuses 200 to 299.
\<close>

record response =
  status :: nat
  text_body :: "js_error + string"
  json_body :: "js_error + jsval"

definition ok :: "response \<Rightarrow> bool" where
  "ok r = (200 \<le> status r \<and> status r \<le> 299)"

datatype fetch_outcome = FetchRejects js_error | FetchResolves response

text \<open>
  The object literal of lines 58 to 66, its properties evaluated in order; the first
  property that throws ends the evaluation.
\<close>

definition buildRecord :: "(rat \<Rightarrow> string) \<Rightarrow> jsnum \<Rightarrow> jsnum \<Rightarrow> jsval \<Rightarrow> js_error + weather_record" where
  "buildRecord toStr lat lon data =
     bind_result (getPath data [''name'']) (\<lambda>name.
     bind_result (getPath data [''main'', ''temp'']) (\<lambda>t.
     bind_result (callToFixed toStr t 2) (\<lambda>temp_s.
     bind_result (getPath data [''main'', ''pressure'']) (\<lambda>p.
     bind_result (getPath data [''main'', ''humidity'']) (\<lambda>h.
     bind_result (getPath data [''weather'', ''0'', ''description'']) (\<lambda>d.
       Inr \<lparr>place = (if truthy name then name else Str ''Unknown Location''),
            latitude = toFixed toStr lat 4,
            longitude = toFixed toStr lon 4,
            temp = temp_s,
            pressure = p,
            humidity = h,
            description = d\<rparr>))))))"

text \<open>The \<open>try\<close> block after the key guard: lines 45 to 69, given what \<open>fetch\<close> did.\<close>

definition fetchBody :: "(rat \<Rightarrow> string) \<Rightarrow> fetch_outcome \<Rightarrow> jsnum \<Rightarrow> jsnum \<Rightarrow> js_error + weather_record" where
  "fetchBody toStr outcome lat lon =
     (case outcome of
        FetchRejects e \<Rightarrow> Inl e
      | FetchResolves resp \<Rightarrow>
          if \<not> ok resp
          then bind_result (text_body resp) (\<lambda>errorText.
                 Inl (Error (''HTTP error! status: '' @ dec (status resp) @ '', '' @ errorText)))
          else bind_result (json_body resp) (\<lambda>data.
                 if truthy data then buildRecord toStr lat lon data
                 else Inl (Error ''Unable to retrieve weather data'')))"

text \<open>The condition of the guard on line 39: the key is empty or is this one placeholder.\<close>

definition key_missing :: "string \<Rightarrow> bool" where
  "key_missing key = (key = [] \<or> key = ''YOUR_ACTUAL_API_KEY_HERE'')"

text \<open>
  \<open>fetchWeatherData(lat, lon)\<close> with the key it closes over. The awaited results are
  arguments; the function's own writes are applied to the state it finds.
\<close>

definition fetchWeatherData :: "string \<Rightarrow> (rat \<Rightarrow> string) \<Rightarrow> fetch_outcome \<Rightarrow> jsnum \<Rightarrow> jsnum \<Rightarrow> app_state \<Rightarrow> app_state" where
  "fetchWeatherData key toStr outcome lat lon s =
     (if key_missing key
      then s\<lparr>effects := effects s @ [Alert ''API Error'' ''Please add a valid OpenWeatherMap API key'']\<rparr>
      else
        (case fetchBody toStr outcome lat lon of
           Inr r \<Rightarrow> s\<lparr>weatherData := Some r, effects := effects s @ [FetchWeather lat lon key]\<rparr>
         | Inl e \<Rightarrow> s\<lparr>effects := effects s @ [FetchWeather lat lon key, ConsoleError ''Weather fetch error:'' e]\<rparr>))"

section \<open>startLocationTracking\<close>

text \<open>
  What the two awaited calls of the location module do:
  \<open>requestForegroundPermissionsAsync\<close> resolves to an object with a \<open>status\<close> or
  rejects, \<open>watchPositionAsync\<close> resolves to a new subscription or rejects.
\<close>

datatype perm_outcome = PermRejects js_error | PermResolves string

datatype watch_outcome = WatchRejects js_error | WatchResolves

text \<open>\<open>subscription.remove()\<close>: the location service stops delivering to that handle.\<close>

definition remove_subscription :: "nat \<Rightarrow> app_state \<Rightarrow> app_state" where
  "remove_subscription h s = s\<lparr>effects := effects s @ [Remove h], active := removeAll h (active s)\<rparr>"

text \<open>The \<open>catch\<close> block of lines 110 to 113.\<close>

definition trackingFailed :: "js_error \<Rightarrow> app_state \<Rightarrow> app_state" where
  "trackingFailed e s =
     s\<lparr>locationError := Some (''Error tracking location: '' @ message e),
       effects := effects s @ [Alert ''Location Error'' (message e)]\<rparr>"

definition startLocationTracking :: "perm_outcome \<Rightarrow> watch_outcome \<Rightarrow> app_state \<Rightarrow> app_state" where
  "startLocationTracking perm watch s =
     (case perm of
        PermRejects e \<Rightarrow> trackingFailed e s
      | PermResolves st \<Rightarrow>
          if st \<noteq> ''granted''
          then s\<lparr>locationError := Some ''Permission to access location was denied''\<rparr>
          else
            (let s1 = (case locationSubscription s of
                         None \<Rightarrow> s
                       | Some h \<Rightarrow> remove_subscription h s)
             in case watch of
                  WatchRejects e \<Rightarrow> trackingFailed e s1
                | WatchResolves \<Rightarrow>
                    s1\<lparr>locationSubscription := Some (next_handle s1),
                       effects := effects s1 @ [WatchPosition (next_handle s1)],
                       active := active s1 @ [next_handle s1],
                       next_handle := Suc (next_handle s1)\<rparr>))"

text \<open>
  \<open>startLocationTracking\<close> above is the function when nothing else runs between its
  two awaits. The function is asynchronous: it runs in two pieces, and other code of the
  component can run between them. The first piece runs when the permission request has
  settled (lines 81 to 93, up to the call of \<open>watchPositionAsync\<close>, which it leaves
  pending); the second runs when that call has settled (the assignment of line 93, or
  the \<open>catch\<close> block).
\<close>

definition startLocationTracking_begin :: "perm_outcome \<Rightarrow> app_state \<Rightarrow> app_state" where
  "startLocationTracking_begin perm s =
     (case perm of
        PermRejects e \<Rightarrow> trackingFailed e s
      | PermResolves st \<Rightarrow>
          if st \<noteq> ''granted''
          then s\<lparr>locationError := Some ''Permission to access location was denied''\<rparr>
          else
            (let s1 = (case locationSubscription s of
                         None \<Rightarrow> s
                       | Some h \<Rightarrow> remove_subscription h s)
             in s1\<lparr>pending_watch := Suc (pending_watch s1)\<rparr>))"

definition startLocationTracking_resume :: "watch_outcome \<Rightarrow> app_state \<Rightarrow> app_state" where
  "startLocationTracking_resume watch s =
     (let s1 = s\<lparr>pending_watch := pending_watch s - 1\<rparr>
      in case watch of
           WatchRejects e \<Rightarrow> trackingFailed e s1
         | WatchResolves \<Rightarrow>
             s1\<lparr>locationSubscription := Some (next_handle s1),
                effects := effects s1 @ [WatchPosition (next_handle s1)],
                active := active s1 @ [next_handle s1],
                next_handle := Suc (next_handle s1)\<rparr>)"

text \<open>The callback given to \<open>watchPositionAsync\<close> (lines 99 to 108).\<close>

definition onLocation :: "string \<Rightarrow> (rat \<Rightarrow> string) \<Rightarrow> jsnum \<Rightarrow> jsnum \<Rightarrow> fetch_outcome \<Rightarrow> app_state \<Rightarrow> app_state" where
  "onLocation key toStr newLat newLon outcome s =
     fetchWeatherData key toStr outcome newLat newLon
       (s\<lparr>st_latitude := newLat, st_longitude := newLon\<rparr>)"

text \<open>The cleanup returned by the effect (lines 119 to 123).\<close>

definition cleanup :: "app_state \<Rightarrow> app_state" where
  "cleanup s = (case locationSubscription s of None \<Rightarrow> s | Some h \<Rightarrow> remove_subscription h s)"

text \<open>The handler of the Show Weather button (lines 127 to 130).\<close>

definition getWeather :: "string \<Rightarrow> (rat \<Rightarrow> string) \<Rightarrow> fetch_outcome \<Rightarrow> app_state \<Rightarrow> app_state" where
  "getWeather key toStr outcome s =
     showDialog (fetchWeatherData key toStr outcome (st_latitude s) (st_longitude s) s)"

section \<open>The component as a transition system\<close>

text \<open>
  Everything that can happen to the mounted component. A start of tracking is two
  events, which other events and other starts can come between: the permission request
  of a call of \<open>startLocationTracking\<close> settles, and a pending call of
  \<open>watchPositionAsync\<close> settles (nothing happens when none is pending). The others:
  the location service delivers a position (only while a subscription is active), the
  user presses Show Weather, the user dismisses the dialog (its Close button and
  \<open>onDismiss\<close> are both \<open>hideDialog\<close>), the effect's cleanup runs. A fetch is one
  event, with the result of the request it awaits: it writes nothing before its last
  await but the alert of the guard and the request itself.
\<close>

datatype app_event =
    PermissionSettles perm_outcome
  | WatchSettles watch_outcome
  | PositionUpdate jsnum jsnum fetch_outcome
  | PressShowWeather fetch_outcome
  | DismissDialog
  | Cleanup

fun step :: "(rat \<Rightarrow> string) \<Rightarrow> app_state \<Rightarrow> app_event \<Rightarrow> app_state" where
  "step toStr s (PermissionSettles perm) = startLocationTracking_begin perm s"
| "step toStr s (WatchSettles watch) =
     (if pending_watch s = 0 then s else startLocationTracking_resume watch s)"
| "step toStr s (PositionUpdate newLat newLon outcome) =
     (if active s = [] then s else onLocation API_KEY toStr newLat newLon outcome s)"
| "step toStr s (PressShowWeather outcome) = getWeather API_KEY toStr outcome s"
| "step toStr s DismissDialog = hideDialog s"
| "step toStr s Cleanup = cleanup s"

definition run :: "(rat \<Rightarrow> string) \<Rightarrow> app_event list \<Rightarrow> app_state" where
  "run toStr evs = foldl (step toStr) initial_state evs"

fun is_position_update :: "app_event \<Rightarrow> bool" where
  "is_position_update (PositionUpdate newLat newLon outcome) = True"
| "is_position_update e = False"

text \<open>
  An event sequence in which no start of tracking overlaps another: whenever a
  permission request settles, no call of \<open>watchPositionAsync\<close> is pending.
\<close>

fun no_overlap :: "(rat \<Rightarrow> string) \<Rightarrow> app_state \<Rightarrow> app_event list \<Rightarrow> bool" where
  "no_overlap toStr s [] = True"
| "no_overlap toStr s (PermissionSettles perm # evs) =
     (pending_watch s = 0 \<and> no_overlap toStr (step toStr s (PermissionSettles perm)) evs)"
| "no_overlap toStr s (e # evs) = no_overlap toStr (step toStr s e) evs"

fun is_alert :: "effect \<Rightarrow> bool" where
  "is_alert (Alert title msg) = True"
| "is_alert e = False"

section \<open>Notions of the specification\<close>

text \<open>
  A string is a number formatted to exactly \<open>f\<close> decimal places when it is an optional
  minus sign, one or more digits, a point, and exactly \<open>f\<close> digits. Such a string
  denotes \<open>decimal_value\<close>, and it is \<open>r\<close> formatted to \<open>f\<close> places when that value
  is within half a unit of the last place of \<open>r\<close>.
\<close>

definition is_digit :: "char \<Rightarrow> bool" where
  "is_digit c = (c \<in> set ''0123456789'')"

definition digit_value :: "char \<Rightarrow> nat" where
  "digit_value c = of_char c - 48"

definition nat_of_digits :: "string \<Rightarrow> nat" where
  "nat_of_digits cs = foldl (\<lambda>acc c. 10 * acc + digit_value c) 0 cs"

definition fixed_decimals :: "nat \<Rightarrow> string \<Rightarrow> bool" where
  "fixed_decimals f s =
     (let u = (if s \<noteq> [] \<and> hd s = CHR ''-'' then tl s else s);
          ip = takeWhile (\<lambda>c. c \<noteq> CHR ''.'') u;
          rest = dropWhile (\<lambda>c. c \<noteq> CHR ''.'') u
      in ip \<noteq> [] \<and> list_all is_digit ip \<and> rest \<noteq> [] \<and> length (tl rest) = f
         \<and> list_all is_digit (tl rest))"

definition decimal_value :: "string \<Rightarrow> rat" where
  "decimal_value s =
     (let neg = (s \<noteq> [] \<and> hd s = CHR ''-'');
          u = (if neg then tl s else s);
          ip = takeWhile (\<lambda>c. c \<noteq> CHR ''.'') u;
          fp = tl (dropWhile (\<lambda>c. c \<noteq> CHR ''.'') u);
          v = of_nat (nat_of_digits ip) + of_nat (nat_of_digits fp) / 10 ^ length fp
      in if neg then - v else v)"

definition rounds_to :: "nat \<Rightarrow> rat \<Rightarrow> string \<Rightarrow> bool" where
  "rounds_to f r s = (fixed_decimals f s \<and> \<bar>decimal_value s - r\<bar> \<le> 1 / (2 * 10 ^ f))"

text \<open>
  What a field formatted with \<open>f\<close> decimals is for each kind of number: a finite
  number of magnitude below \<open>10^21\<close> rounded to \<open>f\<close> places; for a larger finite
  number the engine's default conversion of the magnitude, after a minus sign for a
  negative number; for the three other numbers their name, which has no decimals.
\<close>

definition formatted_or_default :: "(rat \<Rightarrow> string) \<Rightarrow> nat \<Rightarrow> jsnum \<Rightarrow> string \<Rightarrow> bool" where
  "formatted_or_default toStr f n str =
     (case n of
        Finite x \<Rightarrow>
          (if \<bar>x\<bar> < 10 ^ 21 then rounds_to f x str
           else str = (if x < 0 then ''-'' else '''') @ toStr \<bar>x\<bar>)
      | NaN \<Rightarrow> str = ''NaN'' \<and> \<not> fixed_decimals f str
      | PosInf \<Rightarrow> str = ''Infinity'' \<and> \<not> fixed_decimals f str
      | NegInf \<Rightarrow> str = ''-Infinity'' \<and> \<not> fixed_decimals f str)"



text \<open>
  The tracking invariant: the only subscription that can be delivering updates is the
  one the \<open>useRef\<close> cell holds, and its handle is older than the next one.
\<close>

definition tracking_inv :: "app_state \<Rightarrow> bool" where
  "tracking_inv s =
     (case locationSubscription s of
        None \<Rightarrow> active s = []
      | Some h \<Rightarrow> h < next_handle s \<and> (active s = [] \<or> active s = [h]))"

text \<open>
  With it, while starts do not overlap: at most one call of \<open>watchPositionAsync\<close> is
  pending, and while one is pending no subscription is delivering.
\<close>

definition sequential_inv :: "app_state \<Rightarrow> bool" where
  "sequential_inv s =
     (tracking_inv s
      \<and> (pending_watch s = 0 \<or> (pending_watch s = 1 \<and> active s = [])))"

section \<open>Concrete inputs\<close>

text \<open>
  The response body of the scenario: the temperature is the double nearest to
  \<open>18.456\<close>.
\<close>

definition valka_temp :: rat where
  "valka_temp = 5194902170171867 / 2 ^ 48"

definition valka_body :: jsval where
  "valka_body =
     Obj [(''name'', Str ''Valka''),
          (''main'', Obj [(''temp'', Num (Finite valka_temp)),
                          (''pressure'', Num (Finite 1012)),
                          (''humidity'', Num (Finite 60))]),
          (''weather'', Arr [Obj [(''description'', Str ''clear sky'')]])]"

definition valka_record :: weather_record where
  "valka_record =
     \<lparr>place = Str ''Valka'', latitude = ''57.5389'', longitude = ''25.4257'',
      temp = ''18.46'', pressure = Num (Finite 1012), humidity = Num (Finite 60),
      description = Str ''clear sky''\<rparr>"

definition valka_response :: response where
  "valka_response = \<lparr>status = 200, text_body = Inr [], json_body = Inr valka_body\<rparr>"

text \<open>A 401 answer with a plain-text body, and a success whose body has no \<open>weather\<close>.\<close>

definition unauthorized_response :: response where
  "unauthorized_response =
     \<lparr>status = 401, text_body = Inr ''Invalid API key'', json_body = Inl (Error ''body is not JSON'')\<rparr>"





text \<open>
  A success whose temperature is the JSON number \<open>1e999\<close>, which \<open>JSON.parse\<close> reads
  as \<open>Infinity\<close>.
\<close>

definition infinite_temp_response :: response where
  "infinite_temp_response =
     \<lparr>status = 200, text_body = Inr [],
      json_body = Inr (Obj [(''name'', Str ''Valka''),
          (''main'', Obj [(''temp'', Num PosInf),
                          (''pressure'', Num (Finite 1012)),
                          (''humidity'', Num (Finite 60))]),
          (''weather'', Arr [Obj [(''description'', Str ''clear sky'')]])])\<rparr>"

text \<open>
  Two starts of tracking that overlap, as when the effect runs, is cleaned up and runs
  again at once: the cleanup runs while both permission requests are awaited, and both
  requests settle before either call of \<open>watchPositionAsync\<close> does.
\<close>

definition overlapping_starts :: "app_event list" where
  "overlapping_starts =
     [Cleanup,
      PermissionSettles (PermResolves ''granted''),
      PermissionSettles (PermResolves ''granted''),
      WatchSettles WatchResolves, WatchSettles WatchResolves]"

text \<open>A state that already shows a record.\<close>

definition state_with_record :: app_state where
  "state_with_record = initial_state\<lparr>weatherData := Some valka_record\<rparr>"

text \<open>
  An instance of the engine's conversion for the closed examples; none of them formats a
  number of magnitude \<open>10^21\<close> or more, so it is never applied there.
\<close>

definition toStr_example :: "rat \<Rightarrow> string" where
  "toStr_example a = ''1e+21''"

text \<open>The padding step of \<open>toFixed\<close>, named for the proofs.\<close>

definition pad_digits :: "nat \<Rightarrow> string \<Rightarrow> string" where
  "pad_digits f m = (if length m \<le> f then replicate (f + 1 - length m) CHR ''0'' @ m else m)"

section \<open>Evaluating toFixed\<close>

lemma floor_rat_numeral: "\<lfloor>(numeral a / numeral b :: rat)\<rfloor> = numeral a div numeral b"
  by (metis floor_divide_of_int_eq of_int_numeral)

lemma replicate_numeral: "replicate (numeral k) x = x # replicate (pred_numeral k) x"
  by (simp add: numeral_eq_Suc)

lemmas toFixed_eval =
  toFixed_def floor_rat_numeral replicate_numeral dec.simps digit_char_def Let_def

text \<open>
  The three rationals are the doubles the literals denote: each is a 53-bit integer
  over a power of two and lies within half a unit in the last place of the literal.
\<close>

lemma initial_latitude_nearest: "\<bar>initial_latitude - 57.5389\<bar> \<le> 1 / 2 ^ 48"
  by (simp add: initial_latitude_def)

lemma initial_longitude_nearest: "\<bar>initial_longitude - 25.425727\<bar> \<le> 1 / 2 ^ 49"
  by (simp add: initial_longitude_def)

lemma valka_temp_nearest: "\<bar>valka_temp - 18.456\<bar> \<le> 1 / 2 ^ 49"
  by (simp add: valka_temp_def)

lemma toFixed_initial_latitude: "toFixed toStr (Finite initial_latitude) 4 = ''57.5389''"
  by (simp add: toFixed_eval initial_latitude_def)

lemma toFixed_initial_longitude: "toFixed toStr (Finite initial_longitude) 4 = ''25.4257''"
  by (simp add: toFixed_eval initial_longitude_def)

lemma toFixed_valka_temp: "toFixed toStr (Finite valka_temp) 2 = ''18.46''"
  by (simp add: toFixed_eval valka_temp_def)

lemma toFixed_negative_small: "toFixed toStr (Finite (- 1 / 100000)) 4 = ''-0.0000''"
  by (simp add: toFixed_eval)

lemma example_bounds:
  "\<bar>initial_latitude\<bar> < 10 ^ 21" "\<bar>initial_longitude\<bar> < 10 ^ 21" "\<bar>valka_temp\<bar> < 10 ^ 21"
  by (simp_all add: initial_latitude_def initial_longitude_def valka_temp_def)

section \<open>toFixed formats to exactly f decimals\<close>

lemma less_10_cases:
  "k < (10::nat) \<Longrightarrow>
   k = 0 \<or> k = 1 \<or> k = 2 \<or> k = 3 \<or> k = 4 \<or> k = 5 \<or> k = 6 \<or> k = 7 \<or> k = 8 \<or> k = 9"
  by arith

lemma digit_char_props: "is_digit (digit_char d) \<and> digit_value (digit_char d) = d mod 10"
proof -
  have "d mod 10 < 10" by simp
  from less_10_cases [OF this] show ?thesis
    by (elim disjE) (simp_all add: digit_char_def is_digit_def digit_value_def)
qed

lemma is_digit_not_punct: "is_digit c \<Longrightarrow> c \<noteq> CHR ''.'' \<and> c \<noteq> CHR ''-''"
  by (auto simp: is_digit_def)

lemma nat_of_digits_snoc: "nat_of_digits (xs @ [c]) = 10 * nat_of_digits xs + digit_value c"
  by (simp add: nat_of_digits_def)

lemma nat_of_digits_append:
  "nat_of_digits (xs @ ys) = nat_of_digits xs * 10 ^ length ys + nat_of_digits ys"
proof (induction ys rule: rev_induct)
  case Nil
  then show ?case by (simp add: nat_of_digits_def)
next
  case (snoc y ys)
  then show ?case
    unfolding nat_of_digits_def by (simp add: algebra_simps flip: append_assoc)
qed

lemma nat_of_digits_zeros: "nat_of_digits (replicate k CHR ''0'') = 0"
  by (induction k)
    (simp_all add: nat_of_digits_def replicate_append_same digit_value_def
      flip: replicate_append_same)

lemma dec_props: "dec n \<noteq> [] \<and> list_all is_digit (dec n) \<and> nat_of_digits (dec n) = n"
proof (induction n rule: dec.induct)
  case (1 n)
  show ?case
  proof (cases "n < 10")
    case True
    then show ?thesis
      using digit_char_props [of n] nat_of_digits_snoc [of "[]" "digit_char n"]
      by (simp add: dec.simps [of n] nat_of_digits_def)
  next
    case False
    then show ?thesis
      using 1 digit_char_props [of "n mod 10"]
      by (simp add: dec.simps [of n] nat_of_digits_snoc)
  qed
qed

lemma pad_digits_props:
  assumes "list_all is_digit m"
  shows "list_all is_digit (pad_digits f m) \<and> f < length (pad_digits f m)
         \<and> nat_of_digits (pad_digits f m) = nat_of_digits m"
proof -
  have "is_digit CHR ''0''" by (simp add: is_digit_def)
  then have "list_all is_digit (replicate k CHR ''0'')" for k
    by (simp add: list_all_iff)
  then show ?thesis using assms
    by (auto simp: pad_digits_def nat_of_digits_append nat_of_digits_zeros)
qed

lemma toFixed_finite:
  assumes "\<bar>r\<bar> < 10 ^ 21" and "0 < f"
  shows "toFixed toStr (Finite r) f
         = (if r < 0 then ''-'' else '''')
           @ take (length (pad_digits f (dec (nat \<lfloor>\<bar>r\<bar> * 10 ^ f + 1 / 2\<rfloor>))) - f)
                  (pad_digits f (dec (nat \<lfloor>\<bar>r\<bar> * 10 ^ f + 1 / 2\<rfloor>)))
           @ ''.''
           @ drop (length (pad_digits f (dec (nat \<lfloor>\<bar>r\<bar> * 10 ^ f + 1 / 2\<rfloor>))) - f)
                  (pad_digits f (dec (nat \<lfloor>\<bar>r\<bar> * 10 ^ f + 1 / 2\<rfloor>)))"
  using assms by (simp add: toFixed_def Let_def pad_digits_def)

text \<open>The integer part and the fraction part, and the integer their digits spell.\<close>

lemma toFixed_shape:
  assumes "\<bar>r\<bar> < 10 ^ 21" and "0 < f"
  shows "\<exists>ip fp. toFixed toStr (Finite r) f = (if r < 0 then ''-'' else '''') @ ip @ ''.'' @ fp
           \<and> ip \<noteq> [] \<and> list_all is_digit ip \<and> list_all is_digit fp \<and> length fp = f
           \<and> nat_of_digits ip * 10 ^ f + nat_of_digits fp = nat \<lfloor>\<bar>r\<bar> * 10 ^ f + 1 / 2\<rfloor>"
proof -
  define n where "n = nat \<lfloor>\<bar>r\<bar> * 10 ^ f + 1 / 2\<rfloor>"
  define mz where "mz = pad_digits f (dec n)"
  define ip where "ip = take (length mz - f) mz"
  define fp where "fp = drop (length mz - f) mz"
  have mz: "list_all is_digit mz" "f < length mz" "nat_of_digits mz = n"
    using pad_digits_props [of "dec n" f] dec_props [of n] by (simp_all add: mz_def)
  have split: "ip @ fp = mz" by (simp add: ip_def fp_def)
  have len: "length fp = f" "ip \<noteq> []" using mz(2) by (auto simp: ip_def fp_def)
  have digs: "list_all is_digit ip" "list_all is_digit fp"
    using mz(1) split by (metis list_all_append)+
  have val: "nat_of_digits ip * 10 ^ f + nat_of_digits fp = n"
    using nat_of_digits_append [of ip fp] split len(1) mz(3) by simp
  have "toFixed toStr (Finite r) f = (if r < 0 then ''-'' else '''') @ ip @ ''.'' @ fp"
    using toFixed_finite [OF assms, of toStr] by (simp add: ip_def fp_def mz_def n_def)
  then show ?thesis using len digs val unfolding n_def by blast
qed

lemma takeWhile_digits:
  assumes "list_all is_digit ip"
  shows "takeWhile (\<lambda>c. c \<noteq> CHR ''.'') (ip @ CHR ''.'' # fp) = ip"
    and "dropWhile (\<lambda>c. c \<noteq> CHR ''.'') (ip @ CHR ''.'' # fp) = CHR ''.'' # fp"
  using assms is_digit_not_punct
  by (induction ip) auto

lemma shape_fixed_decimals:
  assumes "sign = ''-'' \<or> sign = ''''" and "ip \<noteq> []" and "list_all is_digit ip"
    and "list_all is_digit fp" and "length fp = f"
  shows "fixed_decimals f (sign @ ip @ ''.'' @ fp)"
proof -
  obtain c cs where ip: "ip = c # cs" using assms(2) by (cases ip) auto
  then have "c \<noteq> CHR ''-''" using assms(3) is_digit_not_punct by auto
  then show ?thesis
    using assms takeWhile_digits [OF assms(3), of fp] ip
    by (auto simp: fixed_decimals_def Let_def)
qed

lemma shape_decimal_value:
  assumes "ip \<noteq> []" and "list_all is_digit ip" and "list_all is_digit fp"
  shows "decimal_value (ip @ ''.'' @ fp)
         = of_nat (nat_of_digits ip) + of_nat (nat_of_digits fp) / 10 ^ length fp"
    and "decimal_value (''-'' @ ip @ ''.'' @ fp)
         = - (of_nat (nat_of_digits ip) + of_nat (nat_of_digits fp) / 10 ^ length fp)"
proof -
  obtain c cs where ip: "ip = c # cs" using assms(1) by (cases ip) auto
  then have c: "c \<noteq> CHR ''-''" using assms(2) is_digit_not_punct by auto
  show "decimal_value (ip @ ''.'' @ fp)
         = of_nat (nat_of_digits ip) + of_nat (nat_of_digits fp) / 10 ^ length fp"
    using c takeWhile_digits [OF assms(2), of fp] ip
    by (auto simp: decimal_value_def Let_def)
  show "decimal_value (''-'' @ ip @ ''.'' @ fp)
         = - (of_nat (nat_of_digits ip) + of_nat (nat_of_digits fp) / 10 ^ length fp)"
    using takeWhile_digits [OF assms(2), of fp]
    by (auto simp: decimal_value_def Let_def)
qed

lemma round_half_up_close:
  fixes x :: rat
  assumes "0 \<le> x"
  shows "\<bar>of_nat (nat \<lfloor>x + 1 / 2\<rfloor>) - x\<bar> \<le> 1 / 2"
proof -
  have "0 \<le> \<lfloor>x + 1 / 2\<rfloor>" using assms by simp
  then have "(of_nat (nat \<lfloor>x + 1 / 2\<rfloor>) :: rat) = of_int \<lfloor>x + 1 / 2\<rfloor>" by simp
  moreover have "of_int \<lfloor>x + 1 / 2\<rfloor> \<le> x + 1 / 2" "x + 1 / 2 < of_int \<lfloor>x + 1 / 2\<rfloor> + 1"
    by linarith+
  ultimately show ?thesis by linarith
qed

lemma toFixed_rounds_to:
  assumes "\<bar>r\<bar> < 10 ^ 21" and "0 < f"
  shows "rounds_to f r (toFixed toStr (Finite r) f)"
proof -
  obtain ip fp
    where s: "toFixed toStr (Finite r) f = (if r < 0 then ''-'' else '''') @ ip @ ''.'' @ fp"
    and ip: "ip \<noteq> []" "list_all is_digit ip" and fp: "list_all is_digit fp" "length fp = f"
    and v: "nat_of_digits ip * 10 ^ f + nat_of_digits fp = nat \<lfloor>\<bar>r\<bar> * 10 ^ f + 1 / 2\<rfloor>"
    using toFixed_shape [OF assms, of toStr] by blast
  have fmt: "fixed_decimals f (toFixed toStr (Finite r) f)"
    using shape_fixed_decimals [of "if r < 0 then ''-'' else ''''" ip fp f] ip fp s by simp
  define q :: rat where "q = of_nat (nat_of_digits ip) + of_nat (nat_of_digits fp) / 10 ^ f"
  have "q * 10 ^ f = of_nat (nat_of_digits ip * 10 ^ f + nat_of_digits fp)"
    by (simp add: q_def field_simps)
  then have "q * 10 ^ f = of_nat (nat \<lfloor>\<bar>r\<bar> * 10 ^ f + 1 / 2\<rfloor>)" using v by simp
  then have "\<bar>q * 10 ^ f - \<bar>r\<bar> * 10 ^ f\<bar> \<le> 1 / 2"
    using round_half_up_close [of "\<bar>r\<bar> * 10 ^ f"] by simp
  then have "\<bar>q - \<bar>r\<bar>\<bar> * 10 ^ f \<le> 1 / 2"
    by (simp add: abs_mult flip: left_diff_distrib)
  then have close: "\<bar>q - \<bar>r\<bar>\<bar> \<le> 1 / (2 * 10 ^ f)"
    by (simp add: field_simps)
  have "\<bar>decimal_value (toFixed toStr (Finite r) f) - r\<bar> \<le> 1 / (2 * 10 ^ f)"
  proof (cases "r < 0")
    case True
    then have "decimal_value (toFixed toStr (Finite r) f) = - q"
      using shape_decimal_value(2) [OF ip fp(1)] s fp(2) by (simp add: q_def)
    then show ?thesis using close True by simp
  next
    case False
    then have "decimal_value (toFixed toStr (Finite r) f) = q"
      using shape_decimal_value(1) [OF ip fp(1)] s fp(2) by (simp add: q_def)
    then show ?thesis using close False by simp
  qed
  then show ?thesis using fmt by (simp add: rounds_to_def)
qed

section \<open>The weather fetch\<close>

lemma API_KEY_not_missing: "\<not> key_missing API_KEY"
  by (simp add: key_missing_def API_KEY_def)

lemma fetch_guarded:
  "key_missing key \<Longrightarrow>
   fetchWeatherData key toStr outcome lat lon s =
     s\<lparr>effects := effects s @ [Alert ''API Error'' ''Please add a valid OpenWeatherMap API key'']\<rparr>"
  by (simp add: fetchWeatherData_def)

lemma fetch_unguarded:
  "\<not> key_missing key \<Longrightarrow>
   fetchWeatherData key toStr outcome lat lon s =
     (case fetchBody toStr outcome lat lon of
        Inr r \<Rightarrow> s\<lparr>weatherData := Some r, effects := effects s @ [FetchWeather lat lon key]\<rparr>
      | Inl e \<Rightarrow> s\<lparr>effects := effects s
                      @ [FetchWeather lat lon key, ConsoleError ''Weather fetch error:'' e]\<rparr>)"
  by (simp add: fetchWeatherData_def)

text \<open>
  The guard does what it is there for on the keys it tests: an empty key and the
  placeholder \<open>YOUR_ACTUAL_API_KEY_HERE\<close> give one alert, no request and no record.
\<close>

lemma guard_stops_tested_keys:
  assumes "key = [] \<or> key = ''YOUR_ACTUAL_API_KEY_HERE''"
  shows "effects (fetchWeatherData key toStr outcome lat lon s)
           = effects s @ [Alert ''API Error'' ''Please add a valid OpenWeatherMap API key'']
         \<and> weatherData (fetchWeatherData key toStr outcome lat lon s) = weatherData s"
  using assms by (simp add: fetch_guarded key_missing_def)

lemma fetchWeatherData_keeps:
  "st_latitude (fetchWeatherData key toStr outcome lat lon s) = st_latitude s"
  "st_longitude (fetchWeatherData key toStr outcome lat lon s) = st_longitude s"
  "visible (fetchWeatherData key toStr outcome lat lon s) = visible s"
  "locationError (fetchWeatherData key toStr outcome lat lon s) = locationError s"
  "locationSubscription (fetchWeatherData key toStr outcome lat lon s) = locationSubscription s"
  "active (fetchWeatherData key toStr outcome lat lon s) = active s"
  "next_handle (fetchWeatherData key toStr outcome lat lon s) = next_handle s"
  "pending_watch (fetchWeatherData key toStr outcome lat lon s) = pending_watch s"
  by (simp_all add: fetchWeatherData_def split: sum.splits)

lemma buildRecord_valka:
  "buildRecord toStr (Finite initial_latitude) (Finite initial_longitude) valka_body
   = Inr valka_record"
  by (simp add: buildRecord_def bind_result_def valka_body_def valka_record_def
      toFixed_initial_latitude toFixed_initial_longitude toFixed_valka_temp)

lemma valka_response_ok: "ok valka_response" "json_body valka_response = Inr valka_body"
  by (simp_all add: ok_def valka_response_def)

lemma valka_fetch_result:
  assumes "\<not> key_missing key" and "ok resp" and "json_body resp = Inr valka_body"
  shows "fetchWeatherData key toStr (FetchResolves resp)
           (Finite initial_latitude) (Finite initial_longitude) s
         = s\<lparr>weatherData := Some valka_record,
              effects := effects s
                @ [FetchWeather (Finite initial_latitude) (Finite initial_longitude) key]\<rparr>"
proof -
  have "truthy valka_body" by (simp add: valka_body_def)
  then have "fetchBody toStr (FetchResolves resp) (Finite initial_latitude) (Finite initial_longitude)
             = Inr valka_record"
    using assms(2,3) by (simp add: fetchBody_def bind_result_def buildRecord_valka)
  then show ?thesis using assms(1) by (simp add: fetch_unguarded)
qed

lemma callToFixed_Inr:
  "callToFixed toStr v f = Inr x \<Longrightarrow> \<exists>n. v = Num n \<and> x = toFixed toStr n f"
  by (cases v) auto

lemma buildRecord_Inr:
  assumes "buildRecord toStr lat lon data = Inr r"
  shows "latitude r = toFixed toStr lat 4 \<and> longitude r = toFixed toStr lon 4
         \<and> (\<exists>t. getPath data [''main'', ''temp''] = Inr (Num t) \<and> temp r = toFixed toStr t 2)"
proof -
  obtain t temp_s where t: "getPath data [''main'', ''temp''] = Inr t"
    and c: "callToFixed toStr t 2 = Inr temp_s"
    and r: "latitude r = toFixed toStr lat 4" "longitude r = toFixed toStr lon 4" "temp r = temp_s"
    using assms unfolding buildRecord_def bind_result_def
    by (auto split: sum.splits)
  from callToFixed_Inr [OF c] t r show ?thesis by auto
qed


lemma fetchBody_Inr:
  assumes "fetchBody toStr outcome lat lon = Inr r"
  shows "\<exists>resp data. outcome = FetchResolves resp \<and> ok resp \<and> json_body resp = Inr data
           \<and> truthy data \<and> buildRecord toStr lat lon data = Inr r"
  using assms
  by (auto simp: fetchBody_def bind_result_def split: fetch_outcome.splits sum.splits if_splits)






text \<open>
  Every fetch that changes the stored record, and every fetch that sends its request
  and neither alerts nor logs, is a fetch whose body built a record and stored it.
\<close>

lemma fetch_stored:
  assumes "weatherData (fetchWeatherData key toStr outcome lat lon s) \<noteq> weatherData s
           \<or> effects (fetchWeatherData key toStr outcome lat lon s)
               = effects s @ [FetchWeather lat lon key]"
  shows "\<exists>r. fetchBody toStr outcome lat lon = Inr r
             \<and> weatherData (fetchWeatherData key toStr outcome lat lon s) = Some r"
  using assms
  by (auto simp: fetchWeatherData_def split: if_splits sum.splits)

lemma toFixed_formatted:
  assumes "0 < f"
  shows "formatted_or_default toStr f n (toFixed toStr n f)"
proof (cases n)
  case (Finite x)
  show ?thesis
  proof (cases "\<bar>x\<bar> < 10 ^ 21")
    case True
    then show ?thesis using Finite toFixed_rounds_to [OF True assms, of toStr]
      by (simp add: formatted_or_default_def)
  next
    case False
    then show ?thesis using Finite
      by (simp add: formatted_or_default_def toFixed_def Let_def)
  qed
next
  case NaN
  then show ?thesis
    by (simp add: formatted_or_default_def toFixed_def fixed_decimals_def is_digit_def)
next
  case PosInf
  then show ?thesis
    by (simp add: formatted_or_default_def toFixed_def fixed_decimals_def is_digit_def)
next
  case NegInf
  then show ?thesis
    by (simp add: formatted_or_default_def toFixed_def fixed_decimals_def is_digit_def)
qed

text \<open>
  C1: a fetch with a missing or placeholder key, in particular the key embedded in
  the source, is aborted before any network call with exactly one alert and no record.
  The code does not do this for the embedded key \<open>Your API key\<close>: the guard tests the
  empty key and another placeholder only, so every fetch with the embedded key begins
  with the network request and raises no alert.
\<close>

theorem C1_embedded_key_not_guarded:
  "\<exists>rest. effects (fetchWeatherData API_KEY toStr outcome lat lon s)
             = effects s @ FetchWeather lat lon API_KEY # rest
           \<and> filter is_alert rest = []"
  by (simp add: fetch_unguarded API_KEY_not_missing split: sum.splits)

theorem C1_embedded_key_not_guarded_witness:
  "effects (fetchWeatherData ''Your API key'' toStr_example (FetchResolves unauthorized_response)
      (Finite initial_latitude) (Finite initial_longitude) initial_state)
   = [FetchWeather (Finite initial_latitude) (Finite initial_longitude) ''Your API key'',
      ConsoleError ''Weather fetch error:'' (Error ''HTTP error! status: 401, Invalid API key'')]"
  using C1_embedded_key_not_guarded [of toStr_example "FetchResolves unauthorized_response"
      "Finite initial_latitude" "Finite initial_longitude" initial_state]
  by (simp add: API_KEY_def fetchWeatherData_def key_missing_def fetchBody_def ok_def
      unauthorized_response_def bind_result_def initial_state_def dec.simps digit_char_def)

text \<open>
  C2: the fetch for latitude 57.5389 and longitude 25.425727, answered successfully
  with the body of the scenario, stores exactly the record with place Valka, latitude
  57.5389, longitude 25.4257, temp 18.46, pressure 1012, humidity 60 and description
  clear sky; it holds for every key the guard lets through, the embedded one included.
\<close>

theorem C2_valka_scenario:
  assumes "\<not> key_missing key" and "ok resp" and "json_body resp = Inr valka_body"
  shows "fetchWeatherData key toStr (FetchResolves resp)
           (Finite initial_latitude) (Finite initial_longitude) s
         = s\<lparr>weatherData :=
               Some \<lparr>place = Str ''Valka'', latitude = ''57.5389'', longitude = ''25.4257'',
                     temp = ''18.46'', pressure = Num (Finite 1012), humidity = Num (Finite 60),
                     description = Str ''clear sky''\<rparr>,
              effects := effects s
                @ [FetchWeather (Finite initial_latitude) (Finite initial_longitude) key]\<rparr>"
  using valka_fetch_result [OF assms] by (simp add: valka_record_def)

theorem C2_valka_scenario_witness:
  "weatherData (fetchWeatherData API_KEY toStr_example (FetchResolves valka_response)
      (Finite initial_latitude) (Finite initial_longitude) initial_state)
   = Some \<lparr>place = Str ''Valka'', latitude = ''57.5389'', longitude = ''25.4257'',
           temp = ''18.46'', pressure = Num (Finite 1012), humidity = Num (Finite 60),
           description = Str ''clear sky''\<rparr>"
  using C2_valka_scenario [OF API_KEY_not_missing valka_response_ok, of toStr_example initial_state]
  by simp

text \<open>
  C3: a fetch that receives a status outside 200 to 299 leaves the stored record as it
  was, raises no alert, and logs one error; when the error body can be read, the logged
  error carries the status and that body.
\<close>

theorem C3_http_error_logged_only:
  assumes "\<not> key_missing key" and "\<not> ok resp"
  shows "weatherData (fetchWeatherData key toStr (FetchResolves resp) lat lon s) = weatherData s
       \<and> filter is_alert (effects (fetchWeatherData key toStr (FetchResolves resp) lat lon s))
           = filter is_alert (effects s)
       \<and> (\<exists>e. effects (fetchWeatherData key toStr (FetchResolves resp) lat lon s)
                = effects s @ [FetchWeather lat lon key, ConsoleError ''Weather fetch error:'' e]
              \<and> (\<forall>errorText. text_body resp = Inr errorText \<longrightarrow>
                    e = Error (''HTTP error! status: '' @ dec (status resp) @ '', '' @ errorText)))"
proof (cases "text_body resp")
  case (Inl e)
  then have "fetchBody toStr (FetchResolves resp) lat lon = Inl e"
    using assms(2) by (simp add: fetchBody_def bind_result_def)
  then show ?thesis using assms(1) Inl by (simp add: fetch_unguarded)
next
  case (Inr t)
  then have "fetchBody toStr (FetchResolves resp) lat lon
             = Inl (Error (''HTTP error! status: '' @ dec (status resp) @ '', '' @ t))"
    using assms(2) by (simp add: fetchBody_def bind_result_def)
  then show ?thesis using assms(1) Inr by (simp add: fetch_unguarded)
qed

theorem C3_http_error_logged_only_witness:
  "weatherData (fetchWeatherData API_KEY toStr_example (FetchResolves unauthorized_response)
      (Finite initial_latitude) (Finite initial_longitude) state_with_record) = Some valka_record
   \<and> effects (fetchWeatherData API_KEY toStr_example (FetchResolves unauthorized_response)
      (Finite initial_latitude) (Finite initial_longitude) state_with_record)
     = [FetchWeather (Finite initial_latitude) (Finite initial_longitude) API_KEY,
        ConsoleError ''Weather fetch error:'' (Error ''HTTP error! status: 401, Invalid API key'')]"
proof -
  have n: "\<not> ok unauthorized_response"
    by (simp add: ok_def unauthorized_response_def)
  show ?thesis
    using C3_http_error_logged_only [OF API_KEY_not_missing n, of toStr_example
        "Finite initial_latitude" "Finite initial_longitude" state_with_record]
    by (auto simp: state_with_record_def initial_state_def unauthorized_response_def
        dec.simps digit_char_def)
qed




text \<open>
  The claim that every produced record has a temperature with exactly 2 decimals fails
  as stated: a successful response whose temperature is \<open>1e999\<close> produces a record
  whose temperature field is the string \<open>Infinity\<close>.
\<close>

theorem C5_infinite_temp_counterexample:
  "map_option temp (weatherData (fetchWeatherData API_KEY toStr_example
       (FetchResolves infinite_temp_response)
       (Finite initial_latitude) (Finite initial_longitude) initial_state)) = Some ''Infinity''
   \<and> \<not> fixed_decimals 2 ''Infinity''"
  by (simp add: fetchWeatherData_def key_missing_def API_KEY_def fetchBody_def ok_def
      infinite_temp_response_def bind_result_def buildRecord_def toFixed_def
      fixed_decimals_def is_digit_def)

text \<open>
  C5 (amended): every fetch that stores a record (it changes the stored record, or it
  sends its request and neither alerts nor logs) stores one whose latitude and
  longitude fields are \<open>toFixed(4)\<close> of the input coordinates and whose temperature
  field is \<open>toFixed(2)\<close> of the response's \<open>main.temp\<close>, which is a number. For
  each of the three numbers: when it is finite and of magnitude below \<open>10^21\<close>, the
  field has exactly 4 (for the temperature 2) decimals and its value is within half a
  unit of the last place of the number; when it is \<open>NaN\<close>, \<open>Infinity\<close> or
  \<open>-Infinity\<close>, the field is that name, which has no decimals; when it is finite and
  of magnitude \<open>10^21\<close> or more, the field is the engine's default conversion of the
  magnitude, after a minus sign for a negative number.
\<close>

theorem C5_fields_are_toFixed:
  assumes "weatherData (fetchWeatherData key toStr outcome lat lon s) \<noteq> weatherData s
           \<or> effects (fetchWeatherData key toStr outcome lat lon s)
               = effects s @ [FetchWeather lat lon key]"
  shows "\<exists>r resp data t.
           weatherData (fetchWeatherData key toStr outcome lat lon s) = Some r
         \<and> outcome = FetchResolves resp \<and> json_body resp = Inr data
         \<and> getPath data [''main'', ''temp''] = Inr (Num t)
         \<and> latitude r = toFixed toStr lat 4
         \<and> longitude r = toFixed toStr lon 4
         \<and> temp r = toFixed toStr t 2
         \<and> formatted_or_default toStr 4 lat (latitude r)
         \<and> formatted_or_default toStr 4 lon (longitude r)
         \<and> formatted_or_default toStr 2 t (temp r)"
proof -
  obtain r where b: "fetchBody toStr outcome lat lon = Inr r"
    and w: "weatherData (fetchWeatherData key toStr outcome lat lon s) = Some r"
    using fetch_stored [OF assms] by blast
  obtain resp data where o: "outcome = FetchResolves resp" "json_body resp = Inr data"
    and br: "buildRecord toStr lat lon data = Inr r"
    using fetchBody_Inr [OF b] by blast
  obtain t where f: "latitude r = toFixed toStr lat 4" "longitude r = toFixed toStr lon 4"
    "getPath data [''main'', ''temp''] = Inr (Num t)" "temp r = toFixed toStr t 2"
    using buildRecord_Inr [OF br] by blast
  have "formatted_or_default toStr 4 lat (latitude r)"
    "formatted_or_default toStr 4 lon (longitude r)"
    "formatted_or_default toStr 2 t (temp r)"
    using f toFixed_formatted [of _ toStr] by simp_all
  then show ?thesis using w o f by blast
qed

theorem C5_fields_are_toFixed_witness:
  "rounds_to 4 initial_latitude ''57.5389'' \<and> rounds_to 4 initial_longitude ''25.4257''
   \<and> rounds_to 2 valka_temp ''18.46''"
proof -
  have st: "effects (fetchWeatherData API_KEY toStr_example (FetchResolves valka_response)
              (Finite initial_latitude) (Finite initial_longitude) initial_state)
            = effects initial_state
              @ [FetchWeather (Finite initial_latitude) (Finite initial_longitude) API_KEY]"
    by (simp add: valka_fetch_result API_KEY_not_missing valka_response_ok)
  have w: "weatherData (fetchWeatherData API_KEY toStr_example (FetchResolves valka_response)
              (Finite initial_latitude) (Finite initial_longitude) initial_state)
            = Some valka_record"
    by (simp add: valka_fetch_result API_KEY_not_missing valka_response_ok)
  have t: "getPath valka_body [''main'', ''temp''] = Inr (Num (Finite valka_temp))"
    by (simp add: valka_body_def)
  show ?thesis
    using C5_fields_are_toFixed [OF disjI2, OF st] example_bounds t w
    by (auto simp: valka_record_def valka_response_ok formatted_or_default_def)
qed

text \<open>
  C9: on every outcome the fetch changes nothing of the component's state but the
  weather record: coordinates, dialog flag, location error and the subscription cell
  are as before.
\<close>

theorem C9_fetch_frame:
  "st_latitude (fetchWeatherData key toStr outcome lat lon s) = st_latitude s
   \<and> st_longitude (fetchWeatherData key toStr outcome lat lon s) = st_longitude s
   \<and> visible (fetchWeatherData key toStr outcome lat lon s) = visible s
   \<and> locationError (fetchWeatherData key toStr outcome lat lon s) = locationError s
   \<and> locationSubscription (fetchWeatherData key toStr outcome lat lon s) = locationSubscription s
   \<and> active (fetchWeatherData key toStr outcome lat lon s) = active s"
  by (simp add: fetchWeatherData_def split: sum.splits)

theorem C9_fetch_frame_witness:
  "st_latitude (fetchWeatherData API_KEY toStr_example (FetchResolves valka_response)
      (Finite 0) (Finite 0) initial_state) = Finite initial_latitude
   \<and> st_longitude (fetchWeatherData API_KEY toStr_example (FetchResolves valka_response)
      (Finite 0) (Finite 0) initial_state) = Finite initial_longitude
   \<and> visible (fetchWeatherData API_KEY toStr_example (FetchResolves valka_response)
      (Finite 0) (Finite 0) initial_state) = False
   \<and> locationError (fetchWeatherData API_KEY toStr_example (FetchResolves valka_response)
      (Finite 0) (Finite 0) initial_state) = None"
  using C9_fetch_frame [of API_KEY toStr_example "FetchResolves valka_response"
      "Finite 0" "Finite 0" initial_state]
  by (simp add: initial_state_def)

section \<open>Location tracking\<close>

text \<open>
  The two pieces, run one after the other with nothing between them, are the function
  as a whole.
\<close>

lemma start_is_begin_then_resume:
  "startLocationTracking perm watch s =
     (case perm of
        PermRejects e \<Rightarrow> startLocationTracking_begin perm s
      | PermResolves st \<Rightarrow>
          if st = ''granted''
          then startLocationTracking_resume watch (startLocationTracking_begin perm s)
          else startLocationTracking_begin perm s)"
  by (simp add: startLocationTracking_def startLocationTracking_begin_def
      startLocationTracking_resume_def trackingFailed_def remove_subscription_def Let_def
      split: perm_outcome.splits watch_outcome.splits option.splits)

text \<open>
  A start that runs while the component holds a delivering subscription, with nothing
  between its pieces, removes that subscription and then creates the new one.
\<close>

lemma atomic_restart_releases_first:
  assumes "locationSubscription s = Some h" and "active s = [h]"
  shows "effects (startLocationTracking (PermResolves ''granted'') WatchResolves s)
           = effects s @ [Remove h, WatchPosition (next_handle s)]
         \<and> active (startLocationTracking (PermResolves ''granted'') WatchResolves s)
           = [next_handle s]"
  using assms by (simp add: startLocationTracking_def remove_subscription_def Let_def)

lemma sequential_inv_initial: "sequential_inv initial_state"
  by (simp add: sequential_inv_def tracking_inv_def initial_state_def)

lemma sequential_inv_fetch:
  "sequential_inv s \<Longrightarrow> sequential_inv (fetchWeatherData key toStr outcome lat lon s)"
  by (simp add: sequential_inv_def tracking_inv_def fetchWeatherData_keeps split: option.splits)

lemma sequential_inv_begin:
  "sequential_inv s \<Longrightarrow> pending_watch s = 0 \<Longrightarrow>
   sequential_inv (startLocationTracking_begin perm s)"
  by (auto simp: sequential_inv_def tracking_inv_def startLocationTracking_begin_def
      trackingFailed_def remove_subscription_def Let_def
      split: perm_outcome.splits option.splits)

lemma sequential_inv_resume:
  "sequential_inv s \<Longrightarrow> pending_watch s \<noteq> 0 \<Longrightarrow>
   sequential_inv (startLocationTracking_resume watch s)"
  by (auto simp: sequential_inv_def tracking_inv_def startLocationTracking_resume_def
      trackingFailed_def Let_def
      split: watch_outcome.splits option.splits)

lemma sequential_inv_step:
  assumes "sequential_inv s" and "no_overlap toStr s [e]"
  shows "sequential_inv (step toStr s e)"
proof (cases e)
  case (PermissionSettles perm)
  then show ?thesis using assms by (simp add: sequential_inv_begin)
next
  case (WatchSettles watch)
  then show ?thesis using assms by (simp add: sequential_inv_resume)
next
  case (PositionUpdate newLat newLon outcome)
  have "sequential_inv (s\<lparr>st_latitude := newLat, st_longitude := newLon\<rparr>)"
    using assms(1) by (simp add: sequential_inv_def tracking_inv_def split: option.splits)
  then show ?thesis using PositionUpdate assms(1)
    by (simp add: onLocation_def sequential_inv_fetch)
next
  case (PressShowWeather outcome)
  have "sequential_inv (fetchWeatherData API_KEY toStr outcome (st_latitude s) (st_longitude s) s)"
    using assms(1) by (rule sequential_inv_fetch)
  then show ?thesis using PressShowWeather
    by (simp add: getWeather_def showDialog_def sequential_inv_def tracking_inv_def
        split: option.splits)
next
  case DismissDialog
  then show ?thesis using assms(1)
    by (simp add: hideDialog_def sequential_inv_def tracking_inv_def split: option.splits)
next
  case Cleanup
  then show ?thesis using assms(1)
    by (auto simp: cleanup_def remove_subscription_def sequential_inv_def tracking_inv_def
        split: option.splits)
qed

lemma no_overlap_Cons:
  "no_overlap toStr s (e # evs) = (no_overlap toStr s [e] \<and> no_overlap toStr (step toStr s e) evs)"
  by (cases e) simp_all

lemma sequential_inv_foldl:
  "sequential_inv s \<Longrightarrow> no_overlap toStr s evs \<Longrightarrow> sequential_inv (foldl (step toStr) s evs)"
proof (induction evs arbitrary: s)
  case Nil
  then show ?case by simp
next
  case (Cons e evs)
  from Cons.prems(2) have e: "no_overlap toStr s [e]" and r: "no_overlap toStr (step toStr s e) evs"
    using no_overlap_Cons [of toStr s e evs] by simp_all
  have "sequential_inv (step toStr s e)"
    using Cons.prems(1) e by (rule sequential_inv_step)
  then show ?case using Cons.IH r by simp
qed

text \<open>
  What the removal before the new subscription achieves: as long as no start overlaps
  another, at most one subscription is delivering at any time.
\<close>

lemma sequential_starts_single_subscription:
  assumes "no_overlap toStr initial_state evs"
  shows "length (active (run toStr evs)) \<le> 1"
proof -
  have "sequential_inv (run toStr evs)"
    using sequential_inv_foldl [OF sequential_inv_initial assms] by (simp add: run_def)
  then show ?thesis
    by (auto simp: sequential_inv_def tracking_inv_def split: option.splits)
qed

text \<open>
  C6: when the permission request resolves with a status other than \<open>granted\<close>, the
  location error becomes the fixed message and nothing else happens: no subscription
  is created or removed, no request is sent, no alert is raised.
\<close>

theorem C6_permission_denied:
  assumes "st \<noteq> ''granted''"
  shows "startLocationTracking (PermResolves st) watch s
           = s\<lparr>locationError := Some ''Permission to access location was denied''\<rparr>
         \<and> effects (startLocationTracking (PermResolves st) watch s) = effects s
         \<and> active (startLocationTracking (PermResolves st) watch s) = active s
         \<and> locationSubscription (startLocationTracking (PermResolves st) watch s)
             = locationSubscription s"
  using assms by (simp add: startLocationTracking_def)

theorem C6_permission_denied_witness:
  "startLocationTracking (PermResolves ''denied'') WatchResolves initial_state
     = initial_state\<lparr>locationError := Some ''Permission to access location was denied''\<rparr>
   \<and> effects (startLocationTracking (PermResolves ''denied'') WatchResolves initial_state) = []
   \<and> active (startLocationTracking (PermResolves ''denied'') WatchResolves initial_state) = []"
  using C6_permission_denied [of "''denied''" WatchResolves initial_state]
  by (simp add: initial_state_def)

text \<open>
  C7: at most one subscription is active at any time, and starting tracking twice
  never yields two active subscriptions. The code does not achieve this when two starts
  overlap: the \<open>useRef\<close> cell is tested on line 88 and written on line 93, after the
  await of \<open>watchPositionAsync\<close>, so when both permission requests settle before either
  call of \<open>watchPositionAsync\<close> does, neither start sees a subscription, nothing is
  removed, and both subscriptions deliver.
\<close>

theorem C7_overlapping_starts_two_active:
  assumes "locationSubscription s = None"
  shows "active (foldl (step toStr) s overlapping_starts)
           = active s @ [next_handle s, Suc (next_handle s)]
         \<and> effects (foldl (step toStr) s overlapping_starts)
           = effects s @ [WatchPosition (next_handle s), WatchPosition (Suc (next_handle s))]"
  using assms
  by (simp add: overlapping_starts_def cleanup_def startLocationTracking_begin_def
      startLocationTracking_resume_def Let_def)

theorem C7_overlapping_starts_two_active_witness:
  "active (run toStr_example overlapping_starts) = [0, 1]
   \<and> effects (run toStr_example overlapping_starts) = [WatchPosition 0, WatchPosition 1]"
  using C7_overlapping_starts_two_active [of initial_state toStr_example]
  by (simp add: run_def initial_state_def)

section \<open>The dialog and the coordinates\<close>

lemma begin_keeps:
  "visible (startLocationTracking_begin perm s) = visible s"
  "st_latitude (startLocationTracking_begin perm s) = st_latitude s"
  "st_longitude (startLocationTracking_begin perm s) = st_longitude s"
  by (simp_all add: startLocationTracking_begin_def trackingFailed_def remove_subscription_def
      Let_def split: perm_outcome.splits option.splits)

lemma resume_keeps:
  "visible (startLocationTracking_resume watch s) = visible s"
  "st_latitude (startLocationTracking_resume watch s) = st_latitude s"
  "st_longitude (startLocationTracking_resume watch s) = st_longitude s"
  by (simp_all add: startLocationTracking_resume_def trackingFailed_def Let_def
      split: watch_outcome.splits)

lemma cleanup_keeps:
  "visible (cleanup s) = visible s"
  "st_latitude (cleanup s) = st_latitude s"
  "st_longitude (cleanup s) = st_longitude s"
  by (simp_all add: cleanup_def remove_subscription_def split: option.splits)

lemma press_fetches:
  "\<exists>rest. effects (step toStr s (PressShowWeather outcome))
            = effects s @ FetchWeather (st_latitude s) (st_longitude s) API_KEY # rest"
  by (simp add: getWeather_def showDialog_def fetch_unguarded API_KEY_not_missing
      split: sum.splits)

lemma step_coords:
  "\<not> is_position_update e \<Longrightarrow>
   st_latitude (step toStr s e) = st_latitude s \<and> st_longitude (step toStr s e) = st_longitude s"
  by (cases e)
    (simp_all add: getWeather_def showDialog_def hideDialog_def fetchWeatherData_keeps
      begin_keeps resume_keeps cleanup_keeps)

lemma foldl_coords:
  "list_all (\<lambda>e. \<not> is_position_update e) evs \<Longrightarrow>
   st_latitude (foldl (step toStr) s evs) = st_latitude s
   \<and> st_longitude (foldl (step toStr) s evs) = st_longitude s"
  by (induction evs arbitrary: s) (simp_all add: step_coords)

text \<open>
  C8: the dialog is closed initially; pressing Show Weather opens it and sends the
  request for the current coordinates; dismissing closes it; either piece of a start of
  tracking, a position update and the cleanup leave it as it is, whatever the fetch
  they trigger returns.
\<close>

theorem C8_dialog_two_states:
  "visible initial_state = False
   \<and> visible (step toStr s e)
       = (case e of
            PressShowWeather outcome \<Rightarrow> True
          | DismissDialog \<Rightarrow> False
          | PermissionSettles perm \<Rightarrow> visible s
          | WatchSettles watch \<Rightarrow> visible s
          | PositionUpdate newLat newLon outcome \<Rightarrow> visible s
          | Cleanup \<Rightarrow> visible s)
   \<and> (\<exists>rest. effects (step toStr s (PressShowWeather outcome))
         = effects s @ FetchWeather (st_latitude s) (st_longitude s) API_KEY # rest)"
proof -
  have "visible (step toStr s e)
       = (case e of
            PressShowWeather outcome \<Rightarrow> True
          | DismissDialog \<Rightarrow> False
          | PermissionSettles perm \<Rightarrow> visible s
          | WatchSettles watch \<Rightarrow> visible s
          | PositionUpdate newLat newLon outcome \<Rightarrow> visible s
          | Cleanup \<Rightarrow> visible s)"
    by (cases e)
      (simp_all add: getWeather_def showDialog_def hideDialog_def onLocation_def
        fetchWeatherData_keeps begin_keeps resume_keeps cleanup_keeps)
  then show ?thesis using press_fetches [of toStr s outcome]
    by (simp add: initial_state_def)
qed

theorem C8_dialog_two_states_witness:
  "visible (step toStr_example initial_state (PressShowWeather (FetchResolves valka_response))) = True
   \<and> visible (step toStr_example
        (step toStr_example initial_state (PressShowWeather (FetchResolves valka_response)))
        DismissDialog) = False"
  using C8_dialog_two_states [of toStr_example initial_state
      "PressShowWeather (FetchResolves valka_response)" "FetchResolves valka_response"]
    C8_dialog_two_states [of toStr_example
      "step toStr_example initial_state (PressShowWeather (FetchResolves valka_response))"
      DismissDialog "FetchResolves valka_response"]
  by simp

text \<open>
  C10: as long as no position update has been delivered, the coordinates are the
  initial ones, the doubles nearest to 57.538900 and 25.425727, and pressing Show
  Weather sends the request for exactly these.
\<close>

theorem C10_initial_coordinates:
  assumes "list_all (\<lambda>e. \<not> is_position_update e) evs"
  shows "st_latitude (run toStr evs) = Finite initial_latitude
       \<and> st_longitude (run toStr evs) = Finite initial_longitude
       \<and> \<bar>initial_latitude - 57.538900\<bar> \<le> 1 / 2 ^ 48
       \<and> \<bar>initial_longitude - 25.425727\<bar> \<le> 1 / 2 ^ 49
       \<and> (\<exists>rest. effects (step toStr (run toStr evs) (PressShowWeather outcome))
             = effects (run toStr evs)
               @ FetchWeather (Finite initial_latitude) (Finite initial_longitude) API_KEY # rest)"
proof -
  have c: "st_latitude (run toStr evs) = Finite initial_latitude"
          "st_longitude (run toStr evs) = Finite initial_longitude"
    using foldl_coords [OF assms, of toStr initial_state]
    by (simp_all add: run_def initial_state_def)
  have n: "\<bar>initial_latitude - 57.538900\<bar> \<le> 1 / 2 ^ 48"
          "\<bar>initial_longitude - 25.425727\<bar> \<le> 1 / 2 ^ 49"
    by (simp_all add: initial_latitude_def initial_longitude_def)
  show ?thesis using c n press_fetches [of toStr "run toStr evs" outcome] by simp
qed

theorem C10_initial_coordinates_witness:
  "effects (step toStr_example
      (run toStr_example
         [PermissionSettles (PermResolves ''granted''), WatchSettles WatchResolves, DismissDialog])
      (PressShowWeather (FetchResolves valka_response)))
   = [WatchPosition 0, FetchWeather (Finite initial_latitude) (Finite initial_longitude) API_KEY]"
proof -
  have a: "list_all (\<lambda>e. \<not> is_position_update e)
             [PermissionSettles (PermResolves ''granted''), WatchSettles WatchResolves, DismissDialog]"
    by simp
  have r: "effects (run toStr_example
             [PermissionSettles (PermResolves ''granted''), WatchSettles WatchResolves, DismissDialog])
           = [WatchPosition 0]"
    by (simp add: run_def initial_state_def startLocationTracking_begin_def
        startLocationTracking_resume_def hideDialog_def Let_def)
  show ?thesis
    using C10_initial_coordinates [OF a, of toStr_example "FetchResolves valka_response"] r
    by (auto simp: getWeather_def showDialog_def valka_fetch_result API_KEY_not_missing
        valka_response_ok)
qed

end
